theory Spec2Isabelle
  imports Complex_Main "HOL-Library.List_Lexorder" "HOL-Library.Char_ord" "HOL-Library.Sublist"
begin

section \<open>Data model of the sales dashboard (dashboard\_project/app.py)\<close>

text \<open>
  The program keeps one pandas data frame, read once from a CSV file, and three Dash
  callbacks that filter it. A frame is modelled row by row: the column names in their
  order, and the rows, each with its index label and its cells in column order.

  A cell is a missing value (NaN or NaT), a text, a number or a timestamp. Numbers are
  exact rationals: the rounding of pandas' float64 is not modelled. A timestamp is the
  number of nanoseconds since 1970-01-01 00:00:00, a calendar date is the number of days
  since 1970-01-01. A column is looked up by its name; frames in which two columns bear
  the same name are not modelled.
\<close>

datatype cell = NA | Str string | Num rat | Time int

record frame =
  columns :: "string list"
  rows :: "(nat \<times> cell list) list"

datatype error = FileNotFoundError | ParserError | ValueError | KeyError string | ZeroDivisionError

definition ebind :: "error + 'a \<Rightarrow> ('a \<Rightarrow> error + 'b) \<Rightarrow> error + 'b" where
  "ebind m f = (case m of Inl e \<Rightarrow> Inl e | Inr x \<Rightarrow> f x)"

text \<open>The cell of a row under a column name; a name the frame does not have gives NA
  (the callers check the name first and raise KeyError).\<close>

definition cell_of :: "string list \<Rightarrow> cell list \<Rightarrow> string \<Rightarrow> cell" where
  "cell_of cols r c = (case map_of (zip cols r) c of Some v \<Rightarrow> v | None \<Rightarrow> NA)"

text \<open>Every row of a frame has one cell for each column.\<close>

definition aligned :: "frame \<Rightarrow> bool" where
  "aligned fr = list_all (\<lambda>(i, r). length r = length (columns fr)) (rows fr)"

text \<open>\<^verbatim>\<open>dff[mask]\<close>: boolean indexing keeps the rows whose mask is true, in their order,
  with their index labels.\<close>

definition select_rows :: "(cell list \<Rightarrow> bool) \<Rightarrow> frame \<Rightarrow> frame" where
  "select_rows p fr = fr\<lparr>rows := filter (\<lambda>(i, r). p r) (rows fr)\<rparr>"

text \<open>\<^verbatim>\<open>dff[dff[c] ...]\<close>: the mask is computed from column \<open>c\<close>; pandas raises KeyError
  when the frame has no such column.\<close>

definition mask_on :: "string \<Rightarrow> (cell \<Rightarrow> bool) \<Rightarrow> frame \<Rightarrow> error + frame" where
  "mask_on c p fr =
     (if c \<in> set (columns fr)
      then Inr (select_rows (\<lambda>r. p (cell_of (columns fr) r c)) fr)
      else Inl (KeyError c))"

subsection \<open>Callback inputs\<close>

text \<open>A dropdown value is None, one bare value or a list of values.\<close>

datatype selection = SNone | SScalar string | SList "string list"

fun truthy :: "selection \<Rightarrow> bool" where
  "truthy SNone = False"
| "truthy (SScalar s) = (s \<noteq> [])"
| "truthy (SList xs) = (xs \<noteq> [])"

text \<open>\<^verbatim>\<open>if not isinstance(selected, list): selected = [selected]\<close>\<close>

fun as_list :: "selection \<Rightarrow> string list" where
  "as_list SNone = []"
| "as_list (SScalar s) = [s]"
| "as_list (SList xs) = xs"

text \<open>\<^verbatim>\<open>Series.isin(values)\<close> on a text column: a missing cell is in no list of texts.\<close>

fun isin :: "string list \<Rightarrow> cell \<Rightarrow> bool" where
  "isin vals (Str s) = (s \<in> set vals)"
| "isin vals _ = False"

text \<open>The date picker gives None or a calendar date; \<^verbatim>\<open>pd.to_datetime\<close> of a date is its
  midnight, \<^verbatim>\<open>pd.Timedelta(days=n)\<close> is n days of nanoseconds.\<close>

definition ns_per_day :: int where
  "ns_per_day = 86400000000000"

definition to_datetime :: "int \<Rightarrow> int" where
  "to_datetime d = d * ns_per_day"

definition Timedelta_days :: "int \<Rightarrow> int" where
  "Timedelta_days n = n * ns_per_day"

text \<open>Comparing a datetime column with a timestamp: a missing cell (NaT) compares false.\<close>

fun ts_ge :: "int \<Rightarrow> cell \<Rightarrow> bool" where
  "ts_ge b (Time t) = (t \<ge> b)"
| "ts_ge b _ = False"

fun ts_le :: "int \<Rightarrow> cell \<Rightarrow> bool" where
  "ts_le b (Time t) = (t \<le> b)"
| "ts_le b _ = False"

section \<open>The filter of both callbacks\<close>

text \<open>Lines 193 to 205 of \<^verbatim>\<open>update_charts\<close>: the subset \<^verbatim>\<open>dff\<close> the charts are drawn from.\<close>

definition update_charts_dff ::
  "frame \<Rightarrow> selection \<Rightarrow> selection \<Rightarrow> int option \<Rightarrow> int option \<Rightarrow> error + frame" where
  "update_charts_dff df selected_countries selected_categories start_date end_date =
     ebind (if truthy selected_countries
            then mask_on ''country'' (isin (as_list selected_countries)) df
            else Inr df) (\<lambda>d1.
     ebind (if truthy selected_categories
            then mask_on ''category'' (isin (as_list selected_categories)) d1
            else Inr d1) (\<lambda>d2.
     ebind (case start_date of
              Some s \<Rightarrow> mask_on ''order_date'' (ts_ge (to_datetime s)) d2
            | None \<Rightarrow> Inr d2) (\<lambda>d3.
     (case end_date of
        Some e \<Rightarrow> mask_on ''order_date'' (ts_le (to_datetime e + Timedelta_days 1)) d3
      | None \<Rightarrow> Inr d3))))"

text \<open>Lines 307 to 319 of \<^verbatim>\<open>export_csv\<close>: the same steps, written out a second time in
  the source.\<close>

definition export_csv_dff ::
  "frame \<Rightarrow> selection \<Rightarrow> selection \<Rightarrow> int option \<Rightarrow> int option \<Rightarrow> error + frame" where
  "export_csv_dff df selected_countries selected_categories start_date end_date =
     ebind (if truthy selected_countries
            then mask_on ''country'' (isin (as_list selected_countries)) df
            else Inr df) (\<lambda>d1.
     ebind (if truthy selected_categories
            then mask_on ''category'' (isin (as_list selected_categories)) d1
            else Inr d1) (\<lambda>d2.
     ebind (case start_date of
              Some s \<Rightarrow> mask_on ''order_date'' (ts_ge (to_datetime s)) d2
            | None \<Rightarrow> Inr d2) (\<lambda>d3.
     (case end_date of
        Some e \<Rightarrow> mask_on ''order_date'' (ts_le (to_datetime e + Timedelta_days 1)) d3
      | None \<Rightarrow> Inr d3))))"

section \<open>Loading the base table\<close>

text \<open>
  What is on disk at one of the two paths: a file pandas cannot tokenize, or a CSV with
  its header and its records as \<^verbatim>\<open>read_csv\<close> types them. In the \<^verbatim>\<open>order_date\<close> column a
  field whose text pandas' date parser accepts is the cell \<open>Time t\<close>; any other cell there
  is a field the parser rejects. The remaining columns are typed by pandas' inference:
  \<^verbatim>\<open>country\<close>, \<^verbatim>\<open>category\<close>, \<^verbatim>\<open>product_name\<close> hold texts, \<^verbatim>\<open>quantity\<close>, \<^verbatim>\<open>price\<close>,
  \<^verbatim>\<open>revenue\<close> hold numbers, and an empty field is NA everywhere.
\<close>

datatype file_content = Unreadable | Csv "string list" "cell list list"

record files =
  data_csv :: "file_content option"
  sample_csv :: "file_content option"

text \<open>\<^verbatim>\<open>pd.read_csv(path, parse_dates=["order_date"])\<close>: a record with more fields than the
  header is a tokenizing error, a shorter one is filled with NaN, a header without
  \<^verbatim>\<open>order_date\<close> is a ValueError; the rows get the labels 0, 1, 2, ...\<close>

definition pad_row :: "nat \<Rightarrow> cell list \<Rightarrow> cell list" where
  "pad_row n r = r @ replicate (n - length r) NA"

fun read_csv :: "file_content \<Rightarrow> error + frame" where
  "read_csv Unreadable = Inl ParserError"
| "read_csv (Csv hdr recs) =
     (if list_ex (\<lambda>r. length r > length hdr) recs then Inl ParserError
      else if ''order_date'' \<notin> set hdr then Inl ValueError
      else Inr \<lparr>columns = hdr,
                rows = zip [0..<length recs] (map (pad_row (length hdr)) recs)\<rparr>)"

text \<open>\<^verbatim>\<open>str.strip()\<close> removes leading and trailing white space.\<close>

definition is_space :: "char \<Rightarrow> bool" where
  "is_space c = (c \<in> set [CHR '' '', CHR 0x09, CHR 0x0A, CHR 0x0B, CHR 0x0C, CHR 0x0D])"

definition strip :: "string \<Rightarrow> string" where
  "strip s = rev (dropWhile is_space (rev (dropWhile is_space s)))"

text \<open>\<^verbatim>\<open>df[c] = ...\<close>: a new column goes to the end, an existing one is overwritten in
  place. The new cell of a row is computed from the row's old cells.\<close>

definition setitem :: "string \<Rightarrow> ((string \<Rightarrow> cell) \<Rightarrow> cell) \<Rightarrow> frame \<Rightarrow> frame" where
  "setitem c f fr =
     (if c \<in> set (columns fr)
      then fr\<lparr>rows := map (\<lambda>(i, r). (i, map2 (\<lambda>k v. if k = c then f (cell_of (columns fr) r) else v)
                                                  (columns fr) r)) (rows fr)\<rparr>
      else fr\<lparr>columns := columns fr @ [c],
              rows := map (\<lambda>(i, r). (i, r @ [f (cell_of (columns fr) r)])) (rows fr)\<rparr>)"

text \<open>The product of two numeric cells; NaN in either factor gives NaN.\<close>

fun cell_mul :: "cell \<Rightarrow> cell \<Rightarrow> cell" where
  "cell_mul (Num a) (Num b) = Num (a * b)"
| "cell_mul _ _ = NA"

text \<open>\<^verbatim>\<open>is_datetime64_any_dtype\<close>: the column holds timestamps and NaT only.
  \<^verbatim>\<open>pd.to_datetime(col, errors="coerce")\<close> turns every field the parser rejects into NaT.\<close>

fun is_datetime_cell :: "cell \<Rightarrow> bool" where
  "is_datetime_cell (Time t) = True"
| "is_datetime_cell NA = True"
| "is_datetime_cell _ = False"

definition column :: "frame \<Rightarrow> string \<Rightarrow> cell list" where
  "column fr c = map (\<lambda>(i, r). cell_of (columns fr) r c) (rows fr)"

definition is_datetime64_any_dtype :: "cell list \<Rightarrow> bool" where
  "is_datetime64_any_dtype col = list_all is_datetime_cell col"

fun coerce :: "cell \<Rightarrow> cell" where
  "coerce (Time t) = Time t"
| "coerce _ = NA"

text \<open>\<^verbatim>\<open>.dt.hour.fillna(-1).astype(int)\<close> and \<^verbatim>\<open>.dt.day_name()\<close>. Day 0 (1970-01-01) was a
  Thursday.\<close>

definition ns_per_hour :: int where
  "ns_per_hour = 3600000000000"

definition hour_of :: "int \<Rightarrow> int" where
  "hour_of t = (t div ns_per_hour) mod 24"

definition weekdays :: "string list" where
  "weekdays = [''Monday'', ''Tuesday'', ''Wednesday'', ''Thursday'', ''Friday'',
               ''Saturday'', ''Sunday'']"

definition day_name :: "int \<Rightarrow> string" where
  "day_name t = weekdays ! nat ((t div ns_per_day + 3) mod 7)"

fun order_hour_cell :: "cell \<Rightarrow> cell" where
  "order_hour_cell (Time t) = Num (of_int (hour_of t))"
| "order_hour_cell _ = Num (- 1)"

fun order_weekday_cell :: "cell \<Rightarrow> cell" where
  "order_weekday_cell (Time t) = Str (day_name t)"
| "order_weekday_cell _ = NA"

text \<open>\<^verbatim>\<open>df.dropna(subset=[c])\<close>\<close>

definition dropna :: "string \<Rightarrow> frame \<Rightarrow> error + frame" where
  "dropna c fr = mask_on c (\<lambda>v. v \<noteq> NA) fr"

text \<open>Lines 32 to 41 of \<^verbatim>\<open>load_data\<close>, on the frame as read.\<close>

definition normalize_frame :: "frame \<Rightarrow> error + frame" where
  "normalize_frame df0 =
     (let df1 = df0\<lparr>columns := map strip (columns df0)\<rparr>;
          df2 = (if ''revenue'' \<notin> set (columns df1)
                    \<and> set [''quantity'', ''price''] \<subseteq> set (columns df1)
                 then setitem ''revenue'' (\<lambda>g. cell_mul (g ''quantity'') (g ''price'')) df1
                 else df1);
          df3 = (if ''order_date'' \<in> set (columns df2)
                    \<and> \<not> is_datetime64_any_dtype (column df2 ''order_date'')
                 then setitem ''order_date'' (\<lambda>g. coerce (g ''order_date'')) df2
                 else df2)
      in if ''order_date'' \<notin> set (columns df3) then Inl (KeyError ''order_date'')
         else let df4 = setitem ''order_hour'' (\<lambda>g. order_hour_cell (g ''order_date'')) df3;
                  df5 = setitem ''order_weekday'' (\<lambda>g. order_weekday_cell (g ''order_date'')) df4
              in dropna ''order_date'' df5)"

text \<open>\<^verbatim>\<open>load_data\<close>, lines 19 to 41: the cleaned file if it exists, else the sample if it
  exists, else FileNotFoundError.\<close>

definition load_data :: "files \<Rightarrow> error + frame" where
  "load_data fs =
     ebind (case data_csv fs of
              Some f \<Rightarrow> read_csv f
            | None \<Rightarrow> (case sample_csv fs of
                         Some f \<Rightarrow> read_csv f
                       | None \<Rightarrow> Inl FileNotFoundError)) normalize_frame"

text \<open>The module state: the frame loaded at import and the two option lists of lines
  46 and 47. \<^verbatim>\<open>sorted(col.dropna().unique().tolist())\<close> is the sorted list of the distinct
  texts of the column.\<close>

record app =
  df :: frame
  available_countries :: "string list"
  available_categories :: "string list"

fun texts :: "cell list \<Rightarrow> string list" where
  "texts [] = []"
| "texts (Str s # cs) = s # texts cs"
| "texts (_ # cs) = texts cs"

definition sorted_unique :: "cell list \<Rightarrow> string list" where
  "sorted_unique col = sort (remdups (texts col))"

definition module_init :: "frame \<Rightarrow> error + app" where
  "module_init d =
     (if ''country'' \<notin> set (columns d) then Inl (KeyError ''country'')
      else Inr \<lparr>df = d,
                available_countries = sorted_unique (column d ''country''),
                available_categories = (if ''category'' \<in> set (columns d)
                                        then sorted_unique (column d ''category'') else [])\<rparr>)"

definition startup :: "files \<Rightarrow> error + app" where
  "startup fs = ebind (load_data fs) module_init"

section \<open>The views of \<^verbatim>\<open>update_charts\<close>\<close>

text \<open>\<^verbatim>\<open>Series.sum()\<close> skips NaN; the sum of no number is 0.\<close>

fun num_of :: "cell \<Rightarrow> rat" where
  "num_of (Num x) = x"
| "num_of _ = 0"

text \<open>\<^verbatim>\<open>dff.groupby(key)[val].sum().reset_index()\<close>: one row for each distinct text of the
  key column, the keys in ascending order (pandas sorts the group keys), rows with a
  missing key left out, each with the sum of its group. A missing key column or value
  column is a KeyError.\<close>

definition group_sum :: "frame \<Rightarrow> string \<Rightarrow> string \<Rightarrow> string \<Rightarrow> rat" where
  "group_sum fr key val k =
     sum_list (map (\<lambda>(i, r). num_of (cell_of (columns fr) r val))
                   (filter (\<lambda>(i, r). cell_of (columns fr) r key = Str k) (rows fr)))"

definition groupby_sum :: "frame \<Rightarrow> string \<Rightarrow> string \<Rightarrow> error + (string \<times> rat) list" where
  "groupby_sum fr key val =
     (if key \<notin> set (columns fr) then Inl (KeyError key)
      else if val \<notin> set (columns fr) then Inl (KeyError val)
      else Inr (map (\<lambda>k. (k, group_sum fr key val k)) (sorted_unique (column fr key))))"

text \<open>\<^verbatim>\<open>sort_values("revenue", ascending=False)\<close>: descending by the sum. Equal sums
  stay in the order they had (the sort is taken to be stable; pandas' default sort kind
  promises no order among equal sums).\<close>

definition sort_values_desc :: "(string \<times> rat) list \<Rightarrow> (string \<times> rat) list" where
  "sort_values_desc xs = sort_key (\<lambda>p. - snd p) xs"

text \<open>Line 208: the ten products with the largest revenue.\<close>

definition top_products :: "frame \<Rightarrow> error + (string \<times> rat) list" where
  "top_products dff =
     ebind (groupby_sum dff ''product_name'' ''revenue'')
       (\<lambda>by_product. Inr (take 10 (sort_values_desc by_product)))"



text \<open>Calendar month of a timestamp, counted from year 0: the civil date of a day number
  by the era/day-of-era computation of the proleptic Gregorian calendar.\<close>

definition civil_from_days :: "int \<Rightarrow> int \<times> int \<times> int" where
  "civil_from_days z0 =
     (let z = z0 + 719468;
          era = z div 146097;
          doe = z - era * 146097;
          yoe = (doe - doe div 1460 + doe div 36524 - doe div 146096) div 365;
          y = yoe + era * 400;
          doy = doe - (365 * yoe + yoe div 4 - yoe div 100);
          mp = (5 * doy + 2) div 153;
          d = doy - (153 * mp + 2) div 5 + 1;
          m = (if mp < 10 then mp + 3 else mp - 9)
      in (if m \<le> 2 then y + 1 else y, m, d))"

definition month_index :: "int \<Rightarrow> int" where
  "month_index t = (case civil_from_days (t div ns_per_day) of (y, m, d) \<Rightarrow> 12 * y + (m - 1))"

fun timestamps :: "cell list \<Rightarrow> int list" where
  "timestamps [] = []"
| "timestamps (Time t # cs) = t # timestamps cs"
| "timestamps (_ # cs) = timestamps cs"

text \<open>\<^verbatim>\<open>dff.set_index("order_date").resample("M")["revenue"].sum().reset_index()\<close>: one
  bucket for every calendar month from the first to the last order, empty months
  included with sum 0; no bucket at all for a frame without orders.\<close>

definition month_sum :: "frame \<Rightarrow> int \<Rightarrow> rat" where
  "month_sum fr m =
     sum_list (map (\<lambda>(i, r). num_of (cell_of (columns fr) r ''revenue''))
       (filter (\<lambda>(i, r). case cell_of (columns fr) r ''order_date'' of
                            Time t \<Rightarrow> month_index t = m | _ \<Rightarrow> False) (rows fr)))"

definition resample_month_sum :: "frame \<Rightarrow> error + (int \<times> rat) list" where
  "resample_month_sum fr =
     (if ''order_date'' \<notin> set (columns fr) then Inl (KeyError ''order_date'')
      else if ''revenue'' \<notin> set (columns fr) then Inl (KeyError ''revenue'')
      else Inr (case map month_index (timestamps (column fr ''order_date'')) of
                  [] \<Rightarrow> []
                | m # ms \<Rightarrow> map (\<lambda>k. (k, month_sum fr k))
                              [Min (set (m # ms)) .. Max (set (m # ms))]))"

datatype time_fig = TimeNoData | TimeSeries "(int \<times> rat) list"

text \<open>\<^verbatim>\<open>pd.pivot_table(dff, index="order_hour", columns="order_weekday", values="revenue",
  aggfunc="sum", fill_value=0)\<close> followed by the reindexing of the columns: the hours
  present in ascending order, the weekdays present in the order of the week, each cell
  the sum of its orders, 0 where there is none.\<close>

fun nums :: "cell list \<Rightarrow> rat list" where
  "nums [] = []"
| "nums (Num x # cs) = x # nums cs"
| "nums (_ # cs) = nums cs"

definition pivot_rows :: "frame \<Rightarrow> (nat \<times> cell list) list" where
  "pivot_rows fr =
     filter (\<lambda>(i, r). (case cell_of (columns fr) r ''order_hour'' of Num h \<Rightarrow> True | _ \<Rightarrow> False)
                    \<and> (case cell_of (columns fr) r ''order_weekday'' of Str w \<Rightarrow> True | _ \<Rightarrow> False))
            (rows fr)"

definition pivot_cell :: "frame \<Rightarrow> rat \<Rightarrow> string \<Rightarrow> rat" where
  "pivot_cell fr h w =
     sum_list (map (\<lambda>(i, r). num_of (cell_of (columns fr) r ''revenue''))
       (filter (\<lambda>(i, r). cell_of (columns fr) r ''order_hour'' = Num h
                        \<and> cell_of (columns fr) r ''order_weekday'' = Str w) (rows fr)))"

record pivot =
  pivot_index :: "rat list"
  pivot_columns :: "string list"
  pivot_values :: "rat list list"

definition pivot_table :: "frame \<Rightarrow> error + pivot" where
  "pivot_table fr =
     (if ''revenue'' \<notin> set (columns fr) then Inl (KeyError ''revenue'')
      else if ''order_hour'' \<notin> set (columns fr) then Inl (KeyError ''order_hour'')
      else if ''order_weekday'' \<notin> set (columns fr) then Inl (KeyError ''order_weekday'')
      else let sub = fr\<lparr>rows := pivot_rows fr\<rparr>;
               hours = sort (remdups (nums (column sub ''order_hour'')));
               present = texts (column sub ''order_weekday'');
               days = filter (\<lambda>c. c \<in> set present) weekdays
           in Inr \<lparr>pivot_index = hours, pivot_columns = days,
                    pivot_values = map (\<lambda>h. map (\<lambda>w. pivot_cell fr h w) days) hours\<rparr>)"

definition pivot_empty :: "pivot \<Rightarrow> bool" where
  "pivot_empty p = (pivot_index p = [] \<or> pivot_columns p = [])"

datatype heat_fig = HeatNoData "rat list list" | Heat pivot

text \<open>Python's \<^verbatim>\<open>/\<close> raises on a zero divisor.\<close>

definition truediv :: "rat \<Rightarrow> rat \<Rightarrow> error + rat" where
  "truediv a b = (if b = 0 then Inl ZeroDivisionError else Inr (a / b))"

text \<open>\<^verbatim>\<open>Series.nunique()\<close>: the number of distinct values, NaN not counted.\<close>

definition nunique :: "cell list \<Rightarrow> nat" where
  "nunique col = length (remdups (filter (\<lambda>v. v \<noteq> NA) col))"

text \<open>The value of the preview-rows input as the callback receives it: None, an
  integer, a float, a text that \<^verbatim>\<open>int()\<close> parses to an integer, or any other value that
  is true in a condition and on which \<^verbatim>\<open>int()\<close> raises (text that is no integer, NaN,
  infinity, a list).\<close>

datatype preview_value = PNone | PInt int | PFloat rat | PIntText int | PUnparseable

fun pv_truthy :: "preview_value \<Rightarrow> bool" where
  "pv_truthy PNone = False"
| "pv_truthy (PInt n) = (n \<noteq> 0)"
| "pv_truthy (PFloat x) = (x \<noteq> 0)"
| "pv_truthy (PIntText n) = True"
| "pv_truthy PUnparseable = True"

text \<open>\<^verbatim>\<open>int(v)\<close>: a float is truncated towards zero; None is the exception.\<close>

fun py_int :: "preview_value \<Rightarrow> int option" where
  "py_int (PInt n) = Some n"
| "py_int (PFloat x) = Some (if x \<ge> 0 then \<lfloor>x\<rfloor> else \<lceil>x\<rceil>)"
| "py_int (PIntText n) = Some n"
| "py_int _ = None"

text \<open>Lines 255 to 258.\<close>

definition n_preview :: "preview_value \<Rightarrow> int" where
  "n_preview preview_rows =
     (if pv_truthy preview_rows
      then (case py_int preview_rows of Some n \<Rightarrow> n | None \<Rightarrow> 10)
      else 10)"

text \<open>\<^verbatim>\<open>DataFrame.head(n)\<close>: the first n rows; for a negative n all rows but the last
  \<open>-n\<close>.\<close>

definition head :: "int \<Rightarrow> 'a list \<Rightarrow> 'a list" where
  "head n xs = (if n \<ge> 0 then take (nat n) xs else take (length xs - nat (- n)) xs)"

text \<open>\<^verbatim>\<open>dff["order_date"].min().date()\<close> and \<^verbatim>\<open>.max().date()\<close>: NaT is skipped, and NaT is
  the result when no timestamp is left.\<close>

definition date_of :: "int \<Rightarrow> int" where
  "date_of t = t div ns_per_day"

definition min_date :: "cell list \<Rightarrow> int option" where
  "min_date col =
     (case timestamps col of [] \<Rightarrow> None | t # ts \<Rightarrow> Some (date_of (Min (set (t # ts)))))"

definition max_date :: "cell list \<Rightarrow> int option" where
  "max_date col =
     (case timestamps col of [] \<Rightarrow> None | t # ts \<Rightarrow> Some (date_of (Max (set (t # ts)))))"

text \<open>A summary date: the text "-" of an empty subset, or the date (None for NaT).\<close>

datatype summary_date = Dash | OnDate "int option"

text \<open>What \<^verbatim>\<open>update_charts\<close> returns. A figure is the data it is drawn from; the four
  indicators are the numbers before they are formatted as text.\<close>

record view_bundle =
  fig_top :: "(string \<times> rat) list"
  fig_country :: "(string \<times> rat) list"
  fig_time :: time_fig
  fig_heat :: heat_fig
  total_revenue :: rat
  total_orders :: nat
  aov :: rat
  unique_products :: nat
  table_columns :: "string list"
  table_data :: "cell list list"
  total_rows :: nat
  start_dt :: summary_date
  end_dt :: summary_date
  countries_count :: nat

text \<open>Lines 207 to 269 of \<^verbatim>\<open>update_charts\<close>, on the subset \<^verbatim>\<open>dff\<close>. A column the frame
  lacks raises KeyError at the first statement that reads it: the two groupings, the
  resampling and the pivot table read \<^verbatim>\<open>product_name\<close>, \<^verbatim>\<open>revenue\<close>, \<^verbatim>\<open>country\<close>,
  \<^verbatim>\<open>order_date\<close>, \<^verbatim>\<open>order_hour\<close> and \<^verbatim>\<open>order_weekday\<close>, so the later reads of these
  columns find them.\<close>

definition aggregate :: "frame \<Rightarrow> preview_value \<Rightarrow> error + view_bundle" where
  "aggregate dff preview_rows =
     ebind (top_products dff) (\<lambda>top_products.
     ebind (groupby_sum dff ''country'' ''revenue'') (\<lambda>by_country.
     let sales_country = sort_values_desc by_country in
     ebind (resample_month_sum dff) (\<lambda>time_series.
     let fig_time = (if time_series = [] then TimeNoData else TimeSeries time_series) in
     ebind (pivot_table dff) (\<lambda>pivot.
     let fig_heat = (if pivot_empty pivot then HeatNoData [ [0] ] else Heat pivot);
         total_revenue = sum_list (map num_of (column dff ''revenue''));
         total_orders = (if ''order_id'' \<in> set (columns dff)
                         then nunique (column dff ''order_id'') else length (rows dff))
     in
     ebind (if total_orders \<noteq> 0 then truediv total_revenue (of_nat total_orders)
            else Inr 0) (\<lambda>aov.
     let unique_products = (if ''product_id'' \<in> set (columns dff)
                            then nunique (column dff ''product_id'')
                            else nunique (column dff ''product_name''));
         preview_df = head (n_preview preview_rows) (rows dff)
     in
     Inr \<lparr>fig_top = top_products,
          fig_country = sales_country,
          fig_time = fig_time,
          fig_heat = fig_heat,
          total_revenue = total_revenue,
          total_orders = total_orders,
          aov = aov,
          unique_products = unique_products,
          table_columns = columns dff,
          table_data = map snd preview_df,
          total_rows = length (rows dff),
          start_dt = (if rows dff \<noteq> [] then OnDate (min_date (column dff ''order_date'')) else Dash),
          end_dt = (if rows dff \<noteq> [] then OnDate (max_date (column dff ''order_date'')) else Dash),
          countries_count = nunique (column dff ''country'')\<rparr>)))))"

definition update_charts ::
  "app \<Rightarrow> selection \<Rightarrow> selection \<Rightarrow> int option \<Rightarrow> int option \<Rightarrow> preview_value
     \<Rightarrow> error + view_bundle" where
  "update_charts a selected_countries selected_categories start_date end_date preview_rows =
     ebind (update_charts_dff (df a) selected_countries selected_categories start_date end_date)
       (\<lambda>dff. aggregate dff preview_rows)"

section \<open>Reset and export\<close>

text \<open>A callback either returns its outputs or raises \<^verbatim>\<open>PreventUpdate\<close>, by which Dash
  leaves the outputs as they are.\<close>

datatype 'a callback_result = PreventUpdate | Update 'a

text \<open>\<^verbatim>\<open>not n_clicks\<close> holds for None and for 0.\<close>

fun clicked :: "nat option \<Rightarrow> bool" where
  "clicked None = False"
| "clicked (Some n) = (n \<noteq> 0)"

text \<open>\<^verbatim>\<open>reset_filters\<close>, lines 280 to 291: countries, categories, start date, end date.
  \<^verbatim>\<open>available_countries[0]\<close> is read only when the list has more than three entries.\<close>

definition default_filters :: "app \<Rightarrow> selection \<times> selection \<times> int option \<times> int option" where
  "default_filters a =
     (SList (if length (available_countries a) \<le> 3 then available_countries a
             else [available_countries a ! 0]),
      (if available_categories a \<noteq> [] then SList [] else SNone),
      min_date (column (df a) ''order_date''),
      max_date (column (df a) ''order_date''))"

definition need :: "string \<Rightarrow> frame \<Rightarrow> error + unit" where
  "need c fr = (if c \<in> set (columns fr) then Inr () else Inl (KeyError c))"

definition reset_filters ::
  "app \<Rightarrow> nat option
     \<Rightarrow> error + (selection \<times> selection \<times> int option \<times> int option) callback_result" where
  "reset_filters a n_clicks =
     (if \<not> clicked n_clicks
      then ebind (need ''order_date'' (df a)) (\<lambda>u. Inr (Update (default_filters a)))
      else ebind (need ''order_date'' (df a)) (\<lambda>u. Inr (Update (default_filters a))))"

text \<open>\<^verbatim>\<open>DataFrame.to_csv\<close>: the header line and one line for each row; with
  \<^verbatim>\<open>index=True\<close> a first column holds the index labels under an empty name.\<close>

definition to_csv :: "bool \<Rightarrow> frame \<Rightarrow> string list \<times> cell list list" where
  "to_csv index fr =
     (if index
      then ([] # columns fr, map (\<lambda>(i, r). Num (of_nat i) # r) (rows fr))
      else (columns fr, map snd (rows fr)))"

record download =
  filename :: string
  content :: "string list \<times> cell list list"

text \<open>\<^verbatim>\<open>export_csv\<close>, lines 304 to 321.\<close>

definition export_csv ::
  "app \<Rightarrow> nat option \<Rightarrow> selection \<Rightarrow> selection \<Rightarrow> int option \<Rightarrow> int option
     \<Rightarrow> error + download callback_result" where
  "export_csv a n_clicks selected_countries selected_categories start_date end_date =
     (if \<not> clicked n_clicks then Inr PreventUpdate
      else ebind (export_csv_dff (df a) selected_countries selected_categories start_date end_date)
             (\<lambda>dff. Inr (Update \<lparr>filename = ''filtered_sales.csv'',
                                  content = to_csv False dff\<rparr>)))"

section \<open>Example tables\<close>

text \<open>Three orders: US, Toys, 10 on 2024-01-05 at 09:00; US, Toys, 20 on 2024-02-10 at
  14:00; FR, Games, 5 on 2024-01-20 at 09:00.\<close>

definition scenario_df :: frame where
  "scenario_df =
     \<lparr>columns = [''order_date'', ''product_name'', ''category'', ''country'', ''revenue'',
                 ''order_hour'', ''order_weekday''],
      rows = [(0, [Time 1704445200000000000, Str ''Robot'', Str ''Toys'', Str ''US'', Num 10,
                   Num 9, Str ''Friday'']),
              (1, [Time 1707573600000000000, Str ''Robot'', Str ''Toys'', Str ''US'', Num 20,
                   Num 14, Str ''Saturday'']),
              (2, [Time 1705741200000000000, Str ''Chess'', Str ''Games'', Str ''FR'', Num 5,
                   Num 9, Str ''Saturday''])]\<rparr>"

definition scenario_app :: app where
  "scenario_app = \<lparr>df = scenario_df, available_countries = [''FR'', ''US''],
                    available_categories = [''Games'', ''Toys'']\<rparr>"

definition scenario_header :: "string list" where
  "scenario_header = [''order_date'', '' product_name'', ''category'', ''country '',
                      ''quantity'', ''price'']"

definition scenario_records :: "cell list list" where
  "scenario_records =
     [ [Time 1704445200000000000, Str ''Robot'', Str ''Toys'', Str ''US'', Num 2, Num 5],
      [Str ''n/a'', Str ''Robot'', Str ''Toys'', Str ''US'', Num 1, Num 5],
      [Time 1707573600000000000, Str ''Robot'', Str ''Toys'', Str ''US'', Num 4, Num 5],
      [Time 1705741200000000000, Str ''Chess'', Str ''Games'', Str ''FR'', Num 1, Num 5] ]"

text \<open>Only the sample file exists: the three orders as quantity and price, with padded
  column names and one more record whose date cannot be parsed.\<close>

definition scenario_files :: files where
  "scenario_files = \<lparr>data_csv = None, sample_csv = Some (Csv scenario_header scenario_records)\<rparr>"

definition scenario_loaded :: frame where
  "scenario_loaded =
     \<lparr>columns = [''order_date'', ''product_name'', ''category'', ''country'', ''quantity'',
                 ''price'', ''revenue'', ''order_hour'', ''order_weekday''],
      rows = [(0, [Time 1704445200000000000, Str ''Robot'', Str ''Toys'', Str ''US'', Num 2,
                   Num 5, Num 10, Num 9, Str ''Friday'']),
              (2, [Time 1707573600000000000, Str ''Robot'', Str ''Toys'', Str ''US'', Num 4,
                   Num 5, Num 20, Num 14, Str ''Saturday'']),
              (3, [Time 1705741200000000000, Str ''Chess'', Str ''Games'', Str ''FR'', Num 1,
                   Num 5, Num 5, Num 9, Str ''Saturday''])]\<rparr>"

text \<open>Five orders from five countries, on 1970-01-03 to 1970-01-07.\<close>

definition five_country_df :: frame where
  "five_country_df =
     \<lparr>columns = [''order_date'', ''country''],
      rows = [(0, [Time 432000000000000, Str ''Peru'']),
              (1, [Time 172800000000000, Str ''Chile'']),
              (2, [Time 518400000000000, Str ''Brazil'']),
              (3, [Time 259200000000000, Str ''Uruguay'']),
              (4, [Time 345600000000000, Str ''Bolivia''])]\<rparr>"



text \<open>The module state of a table with one order.\<close>

definition one_order_app :: app where
  "one_order_app =
     \<lparr>df = \<lparr>columns = [''order_date'', ''country''], rows = [(0, [Time 0, Str ''US''])]\<rparr>,
      available_countries = [''US''],
      available_categories = []\<rparr>"

text \<open>A one-row table whose order is stamped 2024-02-01 00:00:00 (day 19754), used with
  the end date 2024-01-31 (day 19753).\<close>

definition midnight_df :: frame where
  "midnight_df = \<lparr>columns = [''country'', ''order_date''],
                  rows = [(0, [Str ''US'', Time (19754 * 86400000000000)])]\<rparr>"

section \<open>Theorems\<close>

text \<open>
  C1. The claim: with an end date set, the filter keeps exactly the records with
  \<open>order_date < end_date + 1 day\<close>. The source compares with \<open>\<le>\<close>: an order stamped
  at midnight of the day after the end date is kept by both callbacks, although its
  timestamp is not strictly below the end date plus one day.
\<close>

theorem end_date_keeps_next_midnight:
  "update_charts_dff midnight_df SNone SNone None (Some 19753) = Inr midnight_df
   \<and> export_csv_dff midnight_df SNone SNone None (Some 19753) = Inr midnight_df
   \<and> rows midnight_df \<noteq> []
   \<and> filter (\<lambda>(i, r). case cell_of (columns midnight_df) r ''order_date'' of
                         Time t \<Rightarrow> t < to_datetime 19753 + Timedelta_days 1
                       | _ \<Rightarrow> False) (rows midnight_df) = []"
  by (simp add: update_charts_dff_def export_csv_dff_def midnight_df_def ebind_def
      mask_on_def select_rows_def cell_of_def to_datetime_def Timedelta_days_def
      ns_per_day_def)

subsection \<open>The filter\<close>

lemma mask_on_keeps:
  "mask_on c p d = Inr d' \<Longrightarrow> columns d' = columns d \<and> subseq (rows d') (rows d)"
  by (auto simp: mask_on_def select_rows_def split: if_splits)

lemma dff_keeps:
  assumes "update_charts_dff d sc scat sd ed = Inr dff"
  shows "columns dff = columns d \<and> subseq (rows dff) (rows d)"
proof -
  obtain d1 where s1:
    "(if truthy sc then mask_on ''country'' (isin (as_list sc)) d else Inr d) = Inr d1"
    using assms
    by (cases "if truthy sc then mask_on ''country'' (isin (as_list sc)) d else Inr d")
      (simp_all add: update_charts_dff_def ebind_def)
  obtain d2 where s2:
    "(if truthy scat then mask_on ''category'' (isin (as_list scat)) d1 else Inr d1) = Inr d2"
    using assms s1
    by (cases "if truthy scat then mask_on ''category'' (isin (as_list scat)) d1 else Inr d1")
      (simp_all add: update_charts_dff_def ebind_def)
  obtain d3 where s3:
    "(case sd of Some s \<Rightarrow> mask_on ''order_date'' (ts_ge (to_datetime s)) d2
      | None \<Rightarrow> Inr d2) = Inr d3"
    using assms s1 s2
    by (cases "case sd of Some s \<Rightarrow> mask_on ''order_date'' (ts_ge (to_datetime s)) d2
               | None \<Rightarrow> Inr d2")
      (simp_all add: update_charts_dff_def ebind_def)
  have s4:
    "(case ed of Some e \<Rightarrow> mask_on ''order_date'' (ts_le (to_datetime e + Timedelta_days 1)) d3
      | None \<Rightarrow> Inr d3) = Inr dff"
    using assms s1 s2 s3 by (simp add: update_charts_dff_def ebind_def)
  have k1: "columns d1 = columns d \<and> subseq (rows d1) (rows d)"
    using s1 mask_on_keeps by (auto split: if_splits)
  have k2: "columns d2 = columns d1 \<and> subseq (rows d2) (rows d1)"
    using s2 mask_on_keeps by (auto split: if_splits)
  have k3: "columns d3 = columns d2 \<and> subseq (rows d3) (rows d2)"
    using s3 mask_on_keeps by (auto split: option.splits)
  have k4: "columns dff = columns d3 \<and> subseq (rows dff) (rows d3)"
    using s4 mask_on_keeps by (auto split: option.splits)
  show ?thesis using k1 k2 k3 k4 by (metis subseq_order.order_trans)
qed

lemma export_same_filter:
  "export_csv_dff d sc scat sd ed = update_charts_dff d sc scat sd ed"
  by (simp add: update_charts_dff_def export_csv_dff_def)

lemma aggregate_rows:
  "aggregate dff pv = Inr b \<Longrightarrow>
     total_rows b = length (rows dff) \<and> table_columns b = columns dff"
  by (auto simp: aggregate_def ebind_def Let_def split: sum.splits)

text \<open>
  C8. Filtering the base table by countries \<open>A\<close> and the result by categories \<open>B\<close> is
  filtering the base table once by both, errors included (a missing column raises the
  same KeyError either way); a selection that is None, an empty list or an empty text
  restricts nothing.
\<close>

theorem filter_conjunctive:
  "ebind (update_charts_dff d A SNone None None) (\<lambda>d1. update_charts_dff d1 SNone B None None)
     = update_charts_dff d A B None None
   \<and> (\<not> truthy A \<and> \<not> truthy B \<longrightarrow> update_charts_dff d A B None None = Inr d)
   \<and> (\<not> truthy A \<longrightarrow> update_charts_dff d A B sd ed = update_charts_dff d SNone B sd ed)
   \<and> (\<not> truthy B \<longrightarrow> update_charts_dff d A B sd ed = update_charts_dff d A SNone sd ed)"
  by (auto simp: update_charts_dff_def ebind_def mask_on_def select_rows_def split: sum.splits)

theorem filter_conjunctive_witness:
  "\<not> truthy (SList []) \<and> \<not> truthy SNone
   \<and> update_charts_dff scenario_df (SList []) SNone None None = Inr scenario_df
   \<and> ebind (update_charts_dff scenario_df (SList [''US'']) SNone None None)
        (\<lambda>d1. update_charts_dff d1 SNone (SScalar ''Toys'') None None)
      = update_charts_dff scenario_df (SList [''US'']) (SScalar ''Toys'') None None
   \<and> \<not> truthy (SScalar [])
   \<and> update_charts_dff scenario_df (SScalar []) (SList [''Toys'']) (Some 19742) (Some 19753)
      = update_charts_dff scenario_df SNone (SList [''Toys'']) (Some 19742) (Some 19753)
   \<and> update_charts_dff scenario_df (SList [''US'']) (SList []) (Some 19742) (Some 19753)
      = update_charts_dff scenario_df (SList [''US'']) SNone (Some 19742) (Some 19753)"
proof -
  have h1: "\<not> truthy (SList [])" and h2: "\<not> truthy SNone" and h3: "\<not> truthy (SScalar [])"
    by simp_all
  show ?thesis
    using h1 h2 h3
      filter_conjunctive [where d = scenario_df and A = "SList []" and B = SNone]
      filter_conjunctive [where d = scenario_df and A = "SList [''US'']" and B = "SScalar ''Toys''"]
      filter_conjunctive [where d = scenario_df and A = "SScalar []" and B = "SList [''Toys'']"
        and sd = "Some 19742" and ed = "Some 19753"]
      filter_conjunctive [where d = scenario_df and A = "SList [''US'']" and B = "SList []"
        and sd = "Some 19742" and ed = "Some 19753"]
    by blast
qed

text \<open>
  C4. Export and charts filter alike. Whenever the chart callback delivers its views for
  a filter, the export callback, once its button has been clicked, delivers for the same
  filter a file whose header is the column list of the base table and whose lines are the
  cells of the rows of the subset the charts were computed from: as many lines as the
  chart callback counts rows, in the order of the base table, with nothing put in front
  of a row's own cells.
\<close>

theorem export_matches_charts:
  assumes "clicked n" and "update_charts a sc scat sd ed pv = Inr b"
  shows "\<exists>dff. update_charts_dff (df a) sc scat sd ed = Inr dff
           \<and> export_csv a n sc scat sd ed =
               Inr (Update \<lparr>filename = ''filtered_sales.csv'',
                            content = (columns (df a), map snd (rows dff))\<rparr>)
           \<and> length (map snd (rows dff)) = total_rows b
           \<and> table_columns b = columns (df a)
           \<and> subseq (rows dff) (rows (df a))"
proof -
  obtain dff where f: "update_charts_dff (df a) sc scat sd ed = Inr dff"
    and g: "aggregate dff pv = Inr b"
    using assms(2) by (auto simp: update_charts_def ebind_def split: sum.splits)
  have k: "columns dff = columns (df a) \<and> subseq (rows dff) (rows (df a))"
    using f by (rule dff_keeps)
  have e: "export_csv a n sc scat sd ed =
      Inr (Update \<lparr>filename = ''filtered_sales.csv'',
                   content = (columns (df a), map snd (rows dff))\<rparr>)"
    using assms(1) f k by (simp add: export_csv_def export_same_filter ebind_def to_csv_def)
  show ?thesis using f g k e aggregate_rows by auto
qed

theorem export_matches_charts_witness:
  "clicked (Some 1)
   \<and> update_charts scenario_app (SScalar ''US'') SNone None None PNone =
       Inr \<lparr>fig_top = [(''Robot'', 30)], fig_country = [(''US'', 30)],
            fig_time = TimeSeries [(24288, 10), (24289, 20)],
            fig_heat = Heat \<lparr>pivot_index = [9, 14],
                             pivot_columns = [''Friday'', ''Saturday''],
                             pivot_values = [ [10, 0], [0, 20] ]\<rparr>,
            total_revenue = 30, total_orders = 2, aov = 15, unique_products = 1,
            table_columns = columns scenario_df,
            table_data = map snd (take 2 (rows scenario_df)), total_rows = 2,
            start_dt = OnDate (Some 19727), end_dt = OnDate (Some 19763),
            countries_count = 1\<rparr>
   \<and> (\<exists>dff. update_charts_dff (df scenario_app) (SScalar ''US'') SNone None None = Inr dff
          \<and> export_csv scenario_app (Some 1) (SScalar ''US'') SNone None None =
               Inr (Update \<lparr>filename = ''filtered_sales.csv'',
                            content = (columns (df scenario_app), map snd (rows dff))\<rparr>)
          \<and> length (map snd (rows dff)) = 2
          \<and> subseq (rows dff) (rows (df scenario_app)))"
proof -
  have h1: "clicked (Some 1)" by simp
  have h2: "update_charts scenario_app (SScalar ''US'') SNone None None PNone =
       Inr \<lparr>fig_top = [(''Robot'', 30)], fig_country = [(''US'', 30)],
            fig_time = TimeSeries [(24288, 10), (24289, 20)],
            fig_heat = Heat \<lparr>pivot_index = [9, 14],
                             pivot_columns = [''Friday'', ''Saturday''],
                             pivot_values = [ [10, 0], [0, 20] ]\<rparr>,
            total_revenue = 30, total_orders = 2, aov = 15, unique_products = 1,
            table_columns = columns scenario_df,
            table_data = map snd (take 2 (rows scenario_df)), total_rows = 2,
            start_dt = OnDate (Some 19727), end_dt = OnDate (Some 19763),
            countries_count = 1\<rparr>"
    by code_simp
  show ?thesis using export_matches_charts [OF h1 h2] h1 h2 by auto
qed

subsection \<open>The views\<close>

text \<open>
  C2. On a subset without rows that has the columns the views read, the aggregation
  returns, for any preview input and without an error: no top product, no country total,
  the no-data time figure, the no-data heat map over the 1x1 matrix of 0, revenue 0,
  0 orders, average order value 0, 0 products, and "-" for both summary dates.
\<close>

theorem aggregate_empty_subset:
  assumes "rows dff = []"
    and "set [''product_name'', ''revenue'', ''country'', ''order_date'', ''order_hour'',
              ''order_weekday''] \<subseteq> set (columns dff)"
  shows "aggregate dff pv =
     Inr \<lparr>fig_top = [], fig_country = [], fig_time = TimeNoData, fig_heat = HeatNoData [ [0] ],
          total_revenue = 0, total_orders = 0, aov = 0, unique_products = 0,
          table_columns = columns dff, table_data = [], total_rows = 0,
          start_dt = Dash, end_dt = Dash, countries_count = 0\<rparr>"
  using assms
  by (simp add: aggregate_def top_products_def groupby_sum_def ebind_def column_def
      sorted_unique_def sort_values_desc_def resample_month_sum_def pivot_table_def
      pivot_rows_def pivot_empty_def nunique_def head_def Let_def)

theorem aggregate_empty_subset_witness:
  "update_charts_dff scenario_df (SList [''DE'']) SNone None None
     = Inr (scenario_df\<lparr>rows := []\<rparr>)
   \<and> aggregate (scenario_df\<lparr>rows := []\<rparr>) (PInt 25) =
     Inr \<lparr>fig_top = [], fig_country = [], fig_time = TimeNoData, fig_heat = HeatNoData [ [0] ],
          total_revenue = 0, total_orders = 0, aov = 0, unique_products = 0,
          table_columns = columns scenario_df, table_data = [], total_rows = 0,
          start_dt = Dash, end_dt = Dash, countries_count = 0\<rparr>"
proof -
  have h1: "rows (scenario_df\<lparr>rows := []\<rparr>) = []" by simp
  have h2: "set [''product_name'', ''revenue'', ''country'', ''order_date'', ''order_hour'',
              ''order_weekday''] \<subseteq> set (columns (scenario_df\<lparr>rows := []\<rparr>))"
    by (simp add: scenario_df_def)
  have h3: "update_charts_dff scenario_df (SList [''DE'']) SNone None None
     = Inr (scenario_df\<lparr>rows := []\<rparr>)"
    by (simp add: update_charts_dff_def scenario_df_def ebind_def mask_on_def select_rows_def
        cell_of_def)
  show ?thesis using aggregate_empty_subset [OF h1 h2, of "PInt 25"] h3 by simp
qed

lemma aggregate_preview:
  "aggregate dff v = Inr b \<Longrightarrow> table_data b = map snd (head (n_preview v) (rows dff))"
  by (auto simp: aggregate_def ebind_def Let_def split: sum.splits)

text \<open>
  C6. The claim bounds every accepted preview length by 1 to 200. The callback accepts
  500 and -1 as they are; with -1 the preview of the three-order table is its first two
  rows, not its first -1.
\<close>

theorem preview_length_unbounded:
  "n_preview (PInt 500) = 500
   \<and> \<not> (1 \<le> n_preview (PInt 500) \<and> n_preview (PInt 500) \<le> 200)
   \<and> n_preview (PInt (- 1)) = - 1
   \<and> map_sum id table_data (aggregate scenario_df (PInt (- 1)))
       = Inr (map snd (take 2 (rows scenario_df)))"
  by code_simp

text \<open>
  C6, amended. The input is parsed with \<^verbatim>\<open>int()\<close>: None, 0 and every value \<^verbatim>\<open>int()\<close>
  rejects give 10, every other value gives its integer (a float truncated towards zero),
  with no range check in the callback; and whenever the length is not negative, so for
  every length from 1 to 200, the preview is that many first rows of the subset in their
  order.
\<close>

theorem preview_rows_parsed:
  "n_preview PNone = 10 \<and> n_preview PUnparseable = 10 \<and> n_preview (PInt 0) = 10
   \<and> n_preview (PFloat 0) = 10
   \<and> (k \<noteq> 0 \<longrightarrow> n_preview (PInt k) = k)
   \<and> n_preview (PIntText k) = k
   \<and> (x \<noteq> 0 \<longrightarrow> n_preview (PFloat x) = (if x \<ge> 0 then \<lfloor>x\<rfloor> else \<lceil>x\<rceil>))
   \<and> (aggregate dff v = Inr b \<longrightarrow> 0 \<le> n_preview v \<longrightarrow>
        table_data b = take (nat (n_preview v)) (map snd (rows dff)))"
  by (auto simp: n_preview_def head_def take_map dest!: aggregate_preview)

theorem preview_rows_parsed_witness:
  "(25::int) \<noteq> 0 \<and> n_preview (PInt 25) = 25
   \<and> (5 / 2 :: rat) \<noteq> 0 \<and> n_preview (PFloat (5 / 2)) = 2
   \<and> aggregate scenario_df (PFloat (5 / 2)) =
       Inr \<lparr>fig_top = [(''Robot'', 30), (''Chess'', 5)],
            fig_country = [(''US'', 30), (''FR'', 5)],
            fig_time = TimeSeries [(24288, 15), (24289, 20)],
            fig_heat = Heat \<lparr>pivot_index = [9, 14],
                             pivot_columns = [''Friday'', ''Saturday''],
                             pivot_values = [ [10, 5], [0, 20] ]\<rparr>,
            total_revenue = 35, total_orders = 3, aov = 35 / 3, unique_products = 2,
            table_columns = columns scenario_df,
            table_data = take 2 (map snd (rows scenario_df)), total_rows = 3,
            start_dt = OnDate (Some 19727), end_dt = OnDate (Some 19763),
            countries_count = 2\<rparr>
   \<and> 0 \<le> n_preview (PFloat (5 / 2))"
proof -
  have h: "aggregate scenario_df (PFloat (5 / 2)) =
       Inr \<lparr>fig_top = [(''Robot'', 30), (''Chess'', 5)],
            fig_country = [(''US'', 30), (''FR'', 5)],
            fig_time = TimeSeries [(24288, 15), (24289, 20)],
            fig_heat = Heat \<lparr>pivot_index = [9, 14],
                             pivot_columns = [''Friday'', ''Saturday''],
                             pivot_values = [ [10, 5], [0, 20] ]\<rparr>,
            total_revenue = 35, total_orders = 3, aov = 35 / 3, unique_products = 2,
            table_columns = columns scenario_df,
            table_data = take 2 (map snd (rows scenario_df)), total_rows = 3,
            start_dt = OnDate (Some 19727), end_dt = OnDate (Some 19763),
            countries_count = 2\<rparr>"
    by code_simp
  have n: "n_preview (PFloat (5 / 2)) = 2" by code_simp
  show ?thesis
    using preview_rows_parsed [where k = 25 and x = "5 / 2" and dff = scenario_df
        and v = "PFloat (5 / 2)"] h n
    by simp
qed

subsection \<open>The ranking of products\<close>

lemma sorted_unique_set: "sorted_unique col = sorted_list_of_set (set (texts col))"
  by (simp add: sorted_unique_def sorted_list_of_set_sort_remdups)

lemma sorted_unique_length: "length (sorted_unique col) = card (set (texts col))"
  by (simp add: sorted_unique_def length_remdups_card_conv)


lemma sorted_list_first:
  assumes "xs \<noteq> []"
  shows "sorted_list_of_set (set xs) ! 0 = Min (set xs)"
proof -
  have "sorted_list_of_set (set xs) = Min (set xs) # sorted_list_of_set (set xs - {Min (set xs)})"
    using assms by (intro sorted_list_of_set_nonempty) auto
  then show ?thesis by simp
qed









subsection \<open>Reset and export\<close>

lemma min_date_set:
  "min_date col = (if set (timestamps col) = {} then None
                   else Some (date_of (Min (set (timestamps col)))))"
  by (cases "timestamps col") (simp_all add: min_date_def)

lemma max_date_set:
  "max_date col = (if set (timestamps col) = {} then None
                   else Some (date_of (Max (set (timestamps col)))))"
  by (cases "timestamps col") (simp_all add: max_date_def)

text \<open>
  C5. For the module state of any base table, \<^verbatim>\<open>reset_filters\<close> returns, clicked or not:
  all distinct countries in sorted order when there are at most three, otherwise the
  first of them in sorted order alone; a category selection that selects nothing (the
  empty list, or None when the table offers no category); and the dates of the earliest
  and of the latest order of the base table.
\<close>

theorem reset_defaults:
  assumes "module_init d = Inr a" and "''order_date'' \<in> set (columns d)"
  shows "\<exists>cats. reset_filters a n = Inr (Update
           (SList (if card (set (texts (column d ''country''))) \<le> 3
                   then sorted_list_of_set (set (texts (column d ''country'')))
                   else [Min (set (texts (column d ''country'')))]),
            cats,
            (if set (timestamps (column d ''order_date'')) = {} then None
             else Some (date_of (Min (set (timestamps (column d ''order_date'')))))),
            (if set (timestamps (column d ''order_date'')) = {} then None
             else Some (date_of (Max (set (timestamps (column d ''order_date''))))))))
         \<and> (cats = SNone \<or> cats = SList []) \<and> \<not> truthy cats"
proof -
  have a: "a = \<lparr>df = d, available_countries = sorted_unique (column d ''country''),
               available_categories = (if ''category'' \<in> set (columns d)
                                       then sorted_unique (column d ''category'') else [])\<rparr>"
    using assms(1) by (auto simp: module_init_def split: if_splits)
  have ne: "\<not> card (set (texts (column d ''country''))) \<le> 3 \<Longrightarrow>
              set (texts (column d ''country'')) \<noteq> {}"
    by auto
  have r: "reset_filters a n = Inr (Update (default_filters a))"
    using assms(2) a by (simp add: reset_filters_def need_def ebind_def)
  show ?thesis
    unfolding r default_filters_def
    using ne
    by (simp add: a sorted_unique_length sorted_list_first min_date_set max_date_set
        sorted_unique_set)
qed

theorem reset_defaults_witness:
  "module_init scenario_df = Inr scenario_app \<and> ''order_date'' \<in> set (columns scenario_df)
   \<and> reset_filters scenario_app (Some 1)
       = Inr (Update (SList [''FR'', ''US''], SList [], Some 19727, Some 19763))
   \<and> ''order_date'' \<in> set (columns five_country_df)
   \<and> map_sum id (\<lambda>a. reset_filters a None) (module_init five_country_df)
       = Inr (Inr (Update (SList [''Bolivia''], SNone, Some 2, Some 6)))
   \<and> (\<exists>cats. reset_filters scenario_app (Some 1) = Inr (Update
           (SList (if card (set (texts (column scenario_df ''country''))) \<le> 3
                   then sorted_list_of_set (set (texts (column scenario_df ''country'')))
                   else [Min (set (texts (column scenario_df ''country'')))]),
            cats,
            (if set (timestamps (column scenario_df ''order_date'')) = {} then None
             else Some (date_of (Min (set (timestamps (column scenario_df ''order_date'')))))),
            (if set (timestamps (column scenario_df ''order_date'')) = {} then None
             else Some (date_of (Max (set (timestamps (column scenario_df ''order_date''))))))))
         \<and> (cats = SNone \<or> cats = SList []) \<and> \<not> truthy cats)"
proof -
  have h1: "module_init scenario_df = Inr scenario_app" by code_simp
  have h2: "''order_date'' \<in> set (columns scenario_df)" by (simp add: scenario_df_def)
  have h3: "reset_filters scenario_app (Some 1)
       = Inr (Update (SList [''FR'', ''US''], SList [], Some 19727, Some 19763))"
    by code_simp
  have h4: "''order_date'' \<in> set (columns five_country_df)" by (simp add: five_country_df_def)
  have h5: "map_sum id (\<lambda>a. reset_filters a None) (module_init five_country_df)
       = Inr (Inr (Update (SList [''Bolivia''], SNone, Some 2, Some 6)))"
    by code_simp
  show ?thesis using reset_defaults [OF h1 h2, of "Some 1"] h1 h2 h3 h4 h5 by blast
qed

text \<open>
  C7. The claim makes the never-clicked call of either trigger a distinguishable
  no-effect condition. For the reset trigger the source returns the default filters
  whether the button was clicked or not: the never-clicked call is an update like any
  other.
\<close>

theorem reset_never_clicked_updates:
  "reset_filters one_order_app None \<noteq> Inr PreventUpdate
   \<and> reset_filters one_order_app None = Inr (Update (SList [''US''], SNone, Some 0, Some 0))
   \<and> reset_filters one_order_app None = reset_filters one_order_app (Some 1)"
  by code_simp

text \<open>
  C7, amended. A never-clicked call of the export trigger is the no-update signal of Dash
  and no error, whatever the filter. A never-clicked call of the reset trigger is no error
  either, but it is not set apart from a click: it returns the default filters, as a
  click does.
\<close>

theorem never_clicked_triggers:
  "\<not> clicked n \<Longrightarrow>
     export_csv a n sc scat sd ed = Inr PreventUpdate
     \<and> reset_filters a n = reset_filters a (Some 1)
     \<and> (''order_date'' \<in> set (columns (df a)) \<longrightarrow>
          reset_filters a n = Inr (Update (default_filters a)))"
  by (simp add: export_csv_def reset_filters_def need_def ebind_def)

theorem never_clicked_triggers_witness:
  "\<not> clicked None \<and> ''order_date'' \<in> set (columns (df scenario_app))
   \<and> export_csv scenario_app None (SList [''US'']) SNone None None = Inr PreventUpdate
   \<and> reset_filters scenario_app None = reset_filters scenario_app (Some 1)
   \<and> reset_filters scenario_app None = Inr (Update (default_filters scenario_app))"
proof -
  have h1: "\<not> clicked None" by simp
  have h2: "''order_date'' \<in> set (columns (df scenario_app))"
    by (simp add: scenario_app_def scenario_df_def)
  show ?thesis
    using never_clicked_triggers [OF h1, of scenario_app "SList [''US'']" SNone None None] h1 h2
    by blast
qed

subsection \<open>The loader\<close>

lemma map_of_replace:
  "map_of (zip cols (map2 (\<lambda>k v. if k = c then x else v) cols r)) c' =
     (if c' = c then map_option (\<lambda>_. x) (map_of (zip cols r) c') else map_of (zip cols r) c')"
proof (induction cols arbitrary: r)
  case Nil
  then show ?case by simp
next
  case (Cons k cols)
  then show ?case by (cases r) auto
qed

lemma cell_of_replace:
  assumes "length r = length cols" and "c \<in> set cols"
  shows "cell_of cols (map2 (\<lambda>k v. if k = c then x else v) cols r) c' =
           (if c' = c then x else cell_of cols r c')"
proof -
  have "map_of (zip cols r) c \<noteq> None"
    using assms by (simp add: map_of_zip_is_None)
  then show ?thesis by (auto simp: cell_of_def map_of_replace)
qed

lemma map_of_zip_SomeD: "map_of (zip cols r) k = Some y \<Longrightarrow> k \<in> set cols"
  by (auto dest!: map_of_SomeD set_zip_leftD)

lemma cell_of_append:
  assumes "length r = length cols" and "c \<notin> set cols"
  shows "cell_of (cols @ [c]) (r @ [x]) c' = (if c' = c then x else cell_of cols r c')"
  using assms
  by (auto simp: cell_of_def map_add_def split: option.splits dest: map_of_zip_SomeD)

lemma setitem_columns: "set (columns (setitem c f fr)) = insert c (set (columns fr))"
  by (auto simp: setitem_def)

lemma setitem_aligned: "aligned fr \<Longrightarrow> aligned (setitem c f fr)"
  by (auto simp: setitem_def aligned_def list_all_iff)

lemma setitem_cells:
  assumes "aligned fr" and "(i, r') \<in> set (rows (setitem c f fr))"
  shows "\<exists>r. (i, r) \<in> set (rows fr)
           \<and> (\<forall>c'. cell_of (columns (setitem c f fr)) r' c' =
                  (if c' = c then f (cell_of (columns fr) r) else cell_of (columns fr) r c'))"
proof (cases "c \<in> set (columns fr)")
  case True
  then obtain r where r: "(i, r) \<in> set (rows fr)"
    and r': "r' = map2 (\<lambda>k v. if k = c then f (cell_of (columns fr) r) else v) (columns fr) r"
    using assms(2) by (auto simp: setitem_def)
  have len: "length r = length (columns fr)"
    using assms(1) r by (auto simp: aligned_def list_all_iff)
  show ?thesis
    using r True by (auto simp: r' setitem_def cell_of_replace [OF len True])
next
  case False
  then obtain r where r: "(i, r) \<in> set (rows fr)"
    and r': "r' = r @ [f (cell_of (columns fr) r)]"
    using assms(2) by (auto simp: setitem_def)
  have len: "length r = length (columns fr)"
    using assms(1) r by (auto simp: aligned_def list_all_iff)
  show ?thesis
    using r False by (auto simp: r' setitem_def cell_of_append [OF len False])
qed

lemma read_csv_aligned:
  assumes "read_csv f = Inr d0"
  shows "aligned d0 \<and> ''order_date'' \<in> set (columns d0)"
proof -
  obtain hdr recs where f: "f = Csv hdr recs" using assms by (cases f) auto
  have ok: "\<not> list_ex (\<lambda>r. length r > length hdr) recs" "''order_date'' \<in> set hdr"
    and d0: "d0 = \<lparr>columns = hdr, rows = zip [0..<length recs] (map (pad_row (length hdr)) recs)\<rparr>"
    using assms unfolding f by (auto split: if_splits)
  have "length (pad_row (length hdr) r) = length hdr" if "r \<in> set recs" for r
    using ok(1) that by (auto simp: pad_row_def list_ex_iff)
  then have "aligned d0"
    by (auto simp: d0 aligned_def list_all_iff dest!: set_zip_rightD)
  then show ?thesis using ok(2) by (simp add: d0)
qed

lemma strip_order_date: "strip ''order_date'' = ''order_date''"
  by (simp add: strip_def is_space_def)


lemma is_datetime_cell_coerce: "is_datetime_cell (coerce v)"
  by (cases v) simp_all

lemma hour_cell: "is_datetime_cell v \<Longrightarrow> v \<noteq> NA \<Longrightarrow>
    \<exists>t. v = Time t \<and> order_hour_cell v = Num (of_int (hour_of t))
      \<and> order_weekday_cell v = Str (day_name t)"
  by (cases v) simp_all

lemma normalize_result:
  assumes al: "aligned d0" and od: "''order_date'' \<in> set (columns d0)"
  shows "\<exists>d. normalize_frame d0 = Inr d
     \<and> (''revenue'' \<in> set (columns d) \<longleftrightarrow>
          ''revenue'' \<in> set (map strip (columns d0))
          \<or> set [''quantity'', ''price''] \<subseteq> set (map strip (columns d0)))
     \<and> (\<forall>(i, r) \<in> set (rows d). \<exists>t.
          cell_of (columns d) r ''order_date'' = Time t
          \<and> cell_of (columns d) r ''order_hour'' = Num (of_int (hour_of t))
          \<and> cell_of (columns d) r ''order_weekday'' = Str (day_name t)
          \<and> (''revenue'' \<notin> set (map strip (columns d0))
               \<and> set [''quantity'', ''price''] \<subseteq> set (map strip (columns d0)) \<longrightarrow>
             cell_of (columns d) r ''revenue'' =
               cell_mul (cell_of (columns d) r ''quantity'') (cell_of (columns d) r ''price'')))"
proof -
  define df1 where "df1 = d0\<lparr>columns := map strip (columns d0)\<rparr>"
  define derive where "derive \<longleftrightarrow> ''revenue'' \<notin> set (columns df1)
                         \<and> set [''quantity'', ''price''] \<subseteq> set (columns df1)"
  define df2 where "df2 = (if derive
      then setitem ''revenue'' (\<lambda>g. cell_mul (g ''quantity'') (g ''price'')) df1 else df1)"
  define coercing where "coercing \<longleftrightarrow> ''order_date'' \<in> set (columns df2)
                         \<and> \<not> is_datetime64_any_dtype (column df2 ''order_date'')"
  define df3 where "df3 = (if coercing
      then setitem ''order_date'' (\<lambda>g. coerce (g ''order_date'')) df2 else df2)"
  define df4 where "df4 = setitem ''order_hour'' (\<lambda>g. order_hour_cell (g ''order_date'')) df3"
  define df5 where "df5 = setitem ''order_weekday'' (\<lambda>g. order_weekday_cell (g ''order_date'')) df4"
  define d where "d = select_rows (\<lambda>r. cell_of (columns df5) r ''order_date'' \<noteq> NA) df5"
  have c1: "columns df1 = map strip (columns d0)" and r1: "rows df1 = rows d0"
    by (simp_all add: df1_def)
  have od1: "''order_date'' \<in> set (columns df1)"
  proof -
    have "strip ''order_date'' \<in> strip ` set (columns d0)" using od by (rule imageI)
    then show ?thesis by (simp add: c1 strip_order_date)
  qed
  have a1: "aligned df1" using al by (simp add: aligned_def df1_def)
  have a2: "aligned df2" using a1 by (simp add: df2_def setitem_aligned)
  have a3: "aligned df3" using a2 by (simp add: df3_def setitem_aligned)
  have a4: "aligned df4" using a3 by (simp add: df4_def setitem_aligned)
  have s2: "set (columns df2) = (if derive then insert ''revenue'' (set (columns df1))
                                 else set (columns df1))"
    by (simp add: df2_def setitem_columns)
  have od2: "''order_date'' \<in> set (columns df2)" using od1 by (simp add: s2)
  have s3: "set (columns df3) = set (columns df2)"
    using od2 by (auto simp: df3_def setitem_columns)
  have s5: "set (columns df5) = insert ''order_weekday'' (insert ''order_hour'' (set (columns df3)))"
    by (simp add: df5_def df4_def setitem_columns)
  have od5: "''order_date'' \<in> set (columns df5)" using od2 by (simp add: s5 s3)
  have "normalize_frame d0 = (if ''order_date'' \<notin> set (columns df3) then Inl (KeyError ''order_date'')
                        else dropna ''order_date'' df5)"
    unfolding normalize_frame_def Let_def df5_def df4_def df3_def coercing_def df2_def derive_def df1_def
    by (rule refl)
  then have n: "normalize_frame d0 = Inr d"
    using od2 od5 s3 by (simp add: dropna_def mask_on_def d_def)
  have cd: "columns d = columns df5" by (simp add: d_def select_rows_def)
  have rev: "''revenue'' \<in> set (columns d) \<longleftrightarrow>
          ''revenue'' \<in> set (map strip (columns d0))
          \<or> set [''quantity'', ''price''] \<subseteq> set (map strip (columns d0))"
    by (auto simp: cd s5 s3 s2 derive_def c1)
  have cells: "\<exists>t. cell_of (columns d) r ''order_date'' = Time t
          \<and> cell_of (columns d) r ''order_hour'' = Num (of_int (hour_of t))
          \<and> cell_of (columns d) r ''order_weekday'' = Str (day_name t)
          \<and> (derive \<longrightarrow> cell_of (columns d) r ''revenue'' =
               cell_mul (cell_of (columns d) r ''quantity'') (cell_of (columns d) r ''price''))"
    if rd: "(i, r) \<in> set (rows d)" for i r
  proof -
    have r5: "(i, r) \<in> set (rows df5)" and nna: "cell_of (columns df5) r ''order_date'' \<noteq> NA"
      using rd by (auto simp: d_def select_rows_def)
    obtain r4 where r4: "(i, r4) \<in> set (rows df4)"
      and l5: "\<And>c'. cell_of (columns df5) r c' =
                 (if c' = ''order_weekday'' then order_weekday_cell (cell_of (columns df4) r4 ''order_date'')
                  else cell_of (columns df4) r4 c')"
      using setitem_cells [OF a4, of i r] r5 unfolding df5_def by blast
    obtain r3 where r3: "(i, r3) \<in> set (rows df3)"
      and l4: "\<And>c'. cell_of (columns df4) r4 c' =
                 (if c' = ''order_hour'' then order_hour_cell (cell_of (columns df3) r3 ''order_date'')
                  else cell_of (columns df3) r3 c')"
      using setitem_cells [OF a3, of i r4] r4 unfolding df4_def by blast
    have "\<exists>r2. (i, r2) \<in> set (rows df2)
            \<and> is_datetime_cell (cell_of (columns df3) r3 ''order_date'')
            \<and> (\<forall>c'. c' \<noteq> ''order_date'' \<longrightarrow>
                  cell_of (columns df3) r3 c' = cell_of (columns df2) r2 c')"
    proof (cases coercing)
      case True
      then show ?thesis
        using setitem_cells [OF a2, of i r3 "''order_date''" "\<lambda>g. coerce (g ''order_date'')"] r3
        by (auto simp: df3_def is_datetime_cell_coerce)
    next
      case False
      then have "list_all is_datetime_cell (column df2 ''order_date'')"
        using od2 by (simp add: coercing_def is_datetime64_any_dtype_def)
      then show ?thesis
        using False r3 by (auto simp: df3_def column_def list_all_iff)
    qed
    then obtain r2 where r2: "(i, r2) \<in> set (rows df2)"
      and dt: "is_datetime_cell (cell_of (columns df3) r3 ''order_date'')"
      and l3: "\<And>c'. c' \<noteq> ''order_date'' \<Longrightarrow>
                  cell_of (columns df3) r3 c' = cell_of (columns df2) r2 c'"
      by blast
    have od_eq: "cell_of (columns df5) r ''order_date'' = cell_of (columns df3) r3 ''order_date''"
      by (simp add: l5 l4)
    obtain t where t: "cell_of (columns df3) r3 ''order_date'' = Time t"
      and h: "order_hour_cell (cell_of (columns df3) r3 ''order_date'') = Num (of_int (hour_of t))"
      and w: "order_weekday_cell (cell_of (columns df3) r3 ''order_date'') = Str (day_name t)"
      using hour_cell [OF dt] nna od_eq by auto
    have dv: "cell_of (columns d) r ''revenue'' =
               cell_mul (cell_of (columns d) r ''quantity'') (cell_of (columns d) r ''price'')"
      if dr: derive
    proof -
      have r2': "(i, r2) \<in> set (rows (setitem ''revenue''
                   (\<lambda>g. cell_mul (g ''quantity'') (g ''price'')) df1))"
        and c2: "columns df2 = columns (setitem ''revenue''
                   (\<lambda>g. cell_mul (g ''quantity'') (g ''price'')) df1)"
        using r2 dr by (simp_all add: df2_def)
      obtain r1 where l2: "\<And>c'. cell_of (columns df2) r2 c' =
                 (if c' = ''revenue''
                  then cell_mul (cell_of (columns df1) r1 ''quantity'') (cell_of (columns df1) r1 ''price'')
                  else cell_of (columns df1) r1 c')"
        using setitem_cells [OF a1 r2'] unfolding c2 by blast
      show ?thesis by (simp add: cd l5 l4 l3 l2)
    qed
    show ?thesis
      using t h w dv by (simp add: cd l5 l4)
  qed
  show ?thesis
    using n rev cells by (auto simp: derive_def c1)
qed


lemma hour_of_range: "0 \<le> hour_of t \<and> hour_of t \<le> 23"
  by (simp add: hour_of_def)

lemma day_name_weekday: "day_name t \<in> set weekdays"
proof -
  have "nat ((t div ns_per_day + 3) mod 7) < length weekdays"
    by (simp add: weekdays_def)
  then show ?thesis unfolding day_name_def by (rule nth_mem)
qed

lemma load_data_read:
  assumes "load_data fs = Inr d"
  shows "\<exists>f d0. read_csv f = Inr d0 \<and> normalize_frame d0 = Inr d"
  using assms
  by (auto simp: load_data_def ebind_def split: option.splits sum.splits)

text \<open>
  C10. In every row of the table that \<^verbatim>\<open>load_data\<close> returns, \<^verbatim>\<open>order_date\<close> is a
  timestamp, \<^verbatim>\<open>order_hour\<close> is the hour of that timestamp, between 0 and 23 and never
  the filler -1, and \<^verbatim>\<open>order_weekday\<close> is the name of its day of the week. (Column names
  that coincide after stripping are outside the model.)
\<close>

theorem loaded_rows_hour_weekday:
  assumes "load_data fs = Inr d" and "distinct (columns d)" and "(i, r) \<in> set (rows d)"
  shows "\<exists>t. cell_of (columns d) r ''order_date'' = Time t
           \<and> cell_of (columns d) r ''order_hour'' = Num (of_int (hour_of t))
           \<and> 0 \<le> hour_of t \<and> hour_of t \<le> 23
           \<and> cell_of (columns d) r ''order_weekday'' = Str (day_name t)
           \<and> day_name t \<in> set weekdays"
proof -
  obtain f d0 where rd: "read_csv f = Inr d0" and nm: "normalize_frame d0 = Inr d"
    using load_data_read [OF assms(1)] by blast
  have "aligned d0" and "''order_date'' \<in> set (columns d0)"
    using read_csv_aligned [OF rd] by simp_all
  from normalize_result [OF this] nm assms(3)
  obtain t where "cell_of (columns d) r ''order_date'' = Time t"
    and "cell_of (columns d) r ''order_hour'' = Num (of_int (hour_of t))"
    and "cell_of (columns d) r ''order_weekday'' = Str (day_name t)"
    by fastforce
  then show ?thesis using hour_of_range [of t] day_name_weekday [of t] by blast
qed

theorem loaded_rows_hour_weekday_witness:
  "load_data scenario_files = Inr scenario_loaded \<and> distinct (columns scenario_loaded)
   \<and> (2, [Time 1707573600000000000, Str ''Robot'', Str ''Toys'', Str ''US'', Num 4,
           Num 5, Num 20, Num 14, Str ''Saturday'']) \<in> set (rows scenario_loaded)
   \<and> hour_of 1707573600000000000 = 14 \<and> day_name 1707573600000000000 = ''Saturday''
   \<and> (\<exists>t. cell_of (columns scenario_loaded)
              [Time 1707573600000000000, Str ''Robot'', Str ''Toys'', Str ''US'', Num 4,
               Num 5, Num 20, Num 14, Str ''Saturday''] ''order_date'' = Time t
           \<and> cell_of (columns scenario_loaded)
              [Time 1707573600000000000, Str ''Robot'', Str ''Toys'', Str ''US'', Num 4,
               Num 5, Num 20, Num 14, Str ''Saturday''] ''order_hour'' = Num (of_int (hour_of t))
           \<and> 0 \<le> hour_of t \<and> hour_of t \<le> 23
           \<and> cell_of (columns scenario_loaded)
              [Time 1707573600000000000, Str ''Robot'', Str ''Toys'', Str ''US'', Num 4,
               Num 5, Num 20, Num 14, Str ''Saturday''] ''order_weekday'' = Str (day_name t)
           \<and> day_name t \<in> set weekdays)"
proof -
  have h1: "load_data scenario_files = Inr scenario_loaded" by code_simp
  have h2: "distinct (columns scenario_loaded)" by code_simp
  have h3: "(2, [Time 1707573600000000000, Str ''Robot'', Str ''Toys'', Str ''US'', Num 4,
           Num 5, Num 20, Num 14, Str ''Saturday'']) \<in> set (rows scenario_loaded)"
    by (simp add: scenario_loaded_def)
  have h4: "hour_of 1707573600000000000 = 14" by code_simp
  have h5: "day_name 1707573600000000000 = ''Saturday''" by code_simp
  show ?thesis
    using loaded_rows_hour_weekday [OF h1 h2 h3] h1 h2 h3 h4 h5 by blast
qed




end
